theory Spec2Isabelle
  imports Complex_Main "HOL-Library.Sublist"
begin

section \<open>JavaScript numbers\<close>

text \<open>
  A Number is an IEEE 754 binary64 value: a finite double, an infinity or NaN.  A finite
  double is carried by the real number it denotes; the two zeros are not told apart (no
  operation below divides by a computed zero).  Every arithmetic operation rounds its
  exact result to the nearest double, ties to even.
\<close>

datatype jsnum = Fin real | PInf | NInf | NaN

text \<open>Round half to even, to an integer.\<close>

definition rne :: "real \<Rightarrow> int" where
  "rne y = (if y - of_int \<lfloor>y\<rfloor> < 1/2 then \<lfloor>y\<rfloor>
            else if 1/2 < y - of_int \<lfloor>y\<rfloor> then \<lfloor>y\<rfloor> + 1
            else if even \<lfloor>y\<rfloor> then \<lfloor>y\<rfloor> else \<lfloor>y\<rfloor> + 1)"

text \<open>The exponent of the unit in the last place: 53 significant bits for a normal
  number, the fixed spacing \<open>2 powr -1074\<close> below the least normal number
  \<open>2 powr -1022\<close>.\<close>

definition ulp_exp :: "real \<Rightarrow> int" where
  "ulp_exp x = (if \<bar>x\<bar> < 2 powr (-1022) then -1074 else \<lfloor>log 2 \<bar>x\<bar>\<rfloor> - 52)"

definition ulp :: "real \<Rightarrow> real" where
  "ulp x = 2 powr of_int (ulp_exp x)"

definition rnd :: "real \<Rightarrow> real" where
  "rnd x = of_int (rne (x / ulp x)) * ulp x"

text \<open>Rounding with overflow: a result that rounds to magnitude \<open>2 ^ 1024\<close> or more is
  an infinity.\<close>

definition overflow_threshold :: real where
  "overflow_threshold = 2 ^ 1024"

definition fl :: "real \<Rightarrow> jsnum" where
  "fl x = (if overflow_threshold \<le> rnd x then PInf
           else if rnd x \<le> - overflow_threshold then NInf
           else Fin (rnd x))"

definition is_double :: "real \<Rightarrow> bool" where
  "is_double x \<longleftrightarrow> fl x = Fin x"

text \<open>The Number value of a decimal literal of the source that is not itself a double
  (\<^verbatim>\<open>1.2\<close>, \<^verbatim>\<open>0.8\<close>, \<^verbatim>\<open>0.1\<close>).\<close>

definition num :: "real \<Rightarrow> jsnum" where
  "num x = fl x"

definition sgn_num :: "jsnum \<Rightarrow> real" where
  "sgn_num a = (case a of Fin x \<Rightarrow> sgn x | PInf \<Rightarrow> 1 | NInf \<Rightarrow> -1 | NaN \<Rightarrow> 0)"

definition inf_of_sign :: "real \<Rightarrow> jsnum" where
  "inf_of_sign s = (if s = 0 then NaN else if 0 < s then PInf else NInf)"

fun js_add :: "jsnum \<Rightarrow> jsnum \<Rightarrow> jsnum" where
  "js_add (Fin a) (Fin b) = fl (a + b)"
| "js_add NaN _ = NaN"
| "js_add _ NaN = NaN"
| "js_add PInf NInf = NaN"
| "js_add NInf PInf = NaN"
| "js_add PInf _ = PInf"
| "js_add _ PInf = PInf"
| "js_add NInf _ = NInf"
| "js_add _ NInf = NInf"

fun js_neg :: "jsnum \<Rightarrow> jsnum" where
  "js_neg (Fin a) = Fin (- a)"
| "js_neg PInf = NInf"
| "js_neg NInf = PInf"
| "js_neg NaN = NaN"

fun js_sub :: "jsnum \<Rightarrow> jsnum \<Rightarrow> jsnum" where
  "js_sub (Fin a) (Fin b) = fl (a - b)"
| "js_sub a b = js_add a (js_neg b)"

fun js_mul :: "jsnum \<Rightarrow> jsnum \<Rightarrow> jsnum" where
  "js_mul (Fin a) (Fin b) = fl (a * b)"
| "js_mul NaN _ = NaN"
| "js_mul _ NaN = NaN"
| "js_mul a b = inf_of_sign (sgn_num a * sgn_num b)"

text \<open>Division: a zero divisor is taken as \<open>+0\<close>.\<close>

fun js_div :: "jsnum \<Rightarrow> jsnum \<Rightarrow> jsnum" where
  "js_div (Fin a) (Fin b) = (if b = 0 then inf_of_sign (sgn a) else fl (a / b))"
| "js_div NaN _ = NaN"
| "js_div _ NaN = NaN"
| "js_div (Fin a) _ = Fin 0"
| "js_div a (Fin b) = inf_of_sign (sgn_num a * (if b < 0 then -1 else 1))"
| "js_div _ _ = NaN"

text \<open>The comparisons \<^verbatim>\<open><\<close> and \<^verbatim>\<open><=\<close>: false as soon as one side is NaN.\<close>

fun js_lt :: "jsnum \<Rightarrow> jsnum \<Rightarrow> bool" where
  "js_lt (Fin a) (Fin b) \<longleftrightarrow> a < b"
| "js_lt NaN _ \<longleftrightarrow> False"
| "js_lt _ NaN \<longleftrightarrow> False"
| "js_lt _ NInf \<longleftrightarrow> False"
| "js_lt PInf _ \<longleftrightarrow> False"
| "js_lt _ _ \<longleftrightarrow> True"

fun js_le :: "jsnum \<Rightarrow> jsnum \<Rightarrow> bool" where
  "js_le (Fin a) (Fin b) \<longleftrightarrow> a \<le> b"
| "js_le NaN _ \<longleftrightarrow> False"
| "js_le _ NaN \<longleftrightarrow> False"
| "js_le NInf _ \<longleftrightarrow> True"
| "js_le _ PInf \<longleftrightarrow> True"
| "js_le _ _ \<longleftrightarrow> False"

definition isNaN :: "jsnum \<Rightarrow> bool" where
  "isNaN a \<longleftrightarrow> a = NaN"

text \<open>A Number is falsy when it is zero or NaN.\<close>

definition truthy :: "jsnum \<Rightarrow> bool" where
  "truthy a \<longleftrightarrow> a \<noteq> Fin 0 \<and> a \<noteq> NaN"

text \<open>\<^verbatim>\<open>Math.log\<close>.  ECMAScript fixes the results at NaN, negative arguments, zero, one and
  infinity and leaves the others implementation-approximated; the model takes the
  correctly rounded natural logarithm.\<close>

fun Math_log :: "jsnum \<Rightarrow> jsnum" where
  "Math_log (Fin x) = (if x < 0 then NaN else if x = 0 then NInf else fl (ln x))"
| "Math_log PInf = PInf"
| "Math_log NInf = NaN"
| "Math_log NaN = NaN"

fun Math_floor :: "jsnum \<Rightarrow> jsnum" where
  "Math_floor (Fin x) = Fin (of_int \<lfloor>x\<rfloor>)"
| "Math_floor a = a"

text \<open>Decimal digits of an integer, as a template literal prints an integer-valued
  Number of magnitude below \<open>10 ^ 21\<close>.\<close>

fun nat_to_string :: "nat \<Rightarrow> string" where
  "nat_to_string n =
     (if n < 10 then [''0123456789'' ! n]
      else nat_to_string (n div 10) @ [''0123456789'' ! (n mod 10)])"

definition int_to_string :: "int \<Rightarrow> string" where
  "int_to_string i = (if i < 0 then ''-'' @ nat_to_string (nat (- i)) else nat_to_string (nat i))"

section \<open>Data model\<close>

text \<open>A property that holds a string when it is present.\<close>

datatype jsval = Undefined | Str string

text \<open>
  An exoplanet record.  Nothing restricts the classification to the three labels: the
  code uses it as a property key and compares it with \<^verbatim>\<open>===\<close> against string literals.
\<close>

record exoplanet =
  exo_id :: string
  name :: string
  ra :: jsnum
  dec :: jsnum
  classification :: jsval
  period :: jsnum
  radius :: jsnum
  temperature :: jsnum
  depth :: jsnum
  snr :: jsnum
  magnitude :: jsnum

text \<open>What \<^verbatim>\<open>await fetch(url)\<close> followed by \<^verbatim>\<open>await response.json()\<close> can give: the fetch
  rejects (network error), the body is not JSON (\<^verbatim>\<open>json()\<close> rejects with a SyntaxError), or
  a value is parsed; \<^verbatim>\<open>response.ok\<close> is carried along.  An exception is carried by its
  message.\<close>

datatype 'a body = SyntaxError string | Parsed 'a

datatype 'a fetch_result = Rejected string | Response bool "'a body"

text \<open>The parsed body of \<^verbatim>\<open>/api/exoplanets\<close>: an array of records, or some other JSON
  value.\<close>

datatype exoplanets_json = Records "exoplanet list" | NotAnArray

section \<open>StarMap\<close>

text \<open>A rendered \<^verbatim>\<open>circle.exoplanet\<close>: its bound datum and its attributes.  An attribute
  function that returns \<^verbatim>\<open>undefined\<close> leaves the attribute unset.\<close>

record marker =
  datum :: exoplanet
  attr_cx :: "jsnum option"
  attr_cy :: "jsnum option"
  attr_r :: jsnum
  attr_fill :: jsval
  attr_opacity :: jsnum

text \<open>The state of a \<^verbatim>\<open>StarMap\<close>.  \<^verbatim>\<open>svg\<close> is unset until \<^verbatim>\<open>init\<close> has created it; of its
  content only the circles of class \<^verbatim>\<open>exoplanet\<close> are kept (the constellation path and the
  Milky Way ellipse are never selected again).\<close>

record starmap =
  containerId :: string
  width :: jsnum
  height :: jsnum
  exoplanets :: exoplanets_json
  svg :: "marker list option"

definition margin_top :: jsnum where "margin_top = Fin 20"
definition margin_right :: jsnum where "margin_right = Fin 20"
definition margin_bottom :: jsnum where "margin_bottom = Fin 30"
definition margin_left :: jsnum where "margin_left = Fin 40"

definition StarMap :: "string \<Rightarrow> jsnum \<Rightarrow> jsnum \<Rightarrow> starmap" where
  "StarMap cid w h =
     \<lparr> containerId = cid, width = w, height = h, exoplanets = Records [], svg = None \<rparr>"

text \<open>A property key: \<^verbatim>\<open>undefined\<close> is looked up as the string \<^verbatim>\<open>undefined\<close>.\<close>

definition property_key :: "jsval \<Rightarrow> string" where
  "property_key v = (case v of Undefined \<Rightarrow> ''undefined'' | Str s \<Rightarrow> s)"

definition colorScheme :: "(string \<times> string) list" where
  "colorScheme =
     [(''Confirmed Exoplanet'', ''#00ff00''),
      (''Candidate'', ''#ffff00''),
      (''False Positive'', ''#ff4444'')]"

definition fill_color :: "exoplanet \<Rightarrow> jsval" where
  "fill_color d =
     (case map_of colorScheme (property_key (classification d)) of
        None \<Rightarrow> Undefined
      | Some c \<Rightarrow> Str c)"

definition classificationMultiplier :: "(string \<times> jsnum) list" where
  "classificationMultiplier =
     [(''Confirmed Exoplanet'', Fin 1.5),
      (''Candidate'', num 1.2),
      (''False Positive'', num 0.8)]"

text \<open>The local constant \<^verbatim>\<open>baseSize\<close> of \<^verbatim>\<open>calculateSize\<close>, as a function of the radius.\<close>

definition baseSize :: "jsnum \<Rightarrow> jsnum" where
  "baseSize a = js_mul (Math_log (js_add a (Fin 1))) (Fin 2)"

text \<open>\<^verbatim>\<open>baseSize * classificationMultiplier[...]\<close>: a missing key gives \<^verbatim>\<open>undefined\<close>, which
  the multiplication converts to NaN.\<close>

definition calculateSize :: "exoplanet \<Rightarrow> jsnum" where
  "calculateSize e =
     js_mul (baseSize (radius e))
       (case map_of classificationMultiplier (property_key (classification e)) of
          None \<Rightarrow> NaN
        | Some m \<Rightarrow> m)"

subsection \<open>Scales\<close>

text \<open>
  Modelled from the spec: \<^verbatim>\<open>d3.scaleLinear\<close>.  The d3 library is not part of the
  repository; the spec describes the two scales as linear maps of a domain interval onto a
  range interval.  The model computes the map the way d3 does: \<^verbatim>\<open>normalize\<close> takes the
  argument to \<^verbatim>\<open>t = (x - a) / (b - a)\<close> (a constant when \<^verbatim>\<open>b - a\<close> is zero or NaN),
  \<^verbatim>\<open>interpolateNumber\<close> gives \<^verbatim>\<open>a * (1 - t) + b * t\<close>, a descending domain is swapped
  together with the range, and a NaN argument gives \<^verbatim>\<open>undefined\<close>.  This is d3 from
  version 6 on, the version that calls a listener with \<^verbatim>\<open>(event, d)\<close> as \<^verbatim>\<open>render\<close> expects.
\<close>

definition normalize :: "jsnum \<Rightarrow> jsnum \<Rightarrow> jsnum \<Rightarrow> jsnum" where
  "normalize a b x =
     (let b' = js_sub b a
      in if truthy b' then js_div (js_sub x a) b'
         else if isNaN b' then NaN else Fin 0.5)"

definition interpolateNumber :: "jsnum \<Rightarrow> jsnum \<Rightarrow> jsnum \<Rightarrow> jsnum" where
  "interpolateNumber a b t = js_add (js_mul a (js_sub (Fin 1) t)) (js_mul b t)"

definition scaleLinear :: "jsnum \<times> jsnum \<Rightarrow> jsnum \<times> jsnum \<Rightarrow> jsnum \<Rightarrow> jsnum option" where
  "scaleLinear dm rg x =
     (let d0 = fst dm; d1 = snd dm; r0 = fst rg; r1 = snd rg
      in if isNaN x then None
         else if js_lt d1 d0 then Some (interpolateNumber r1 r0 (normalize d1 d0 x))
         else Some (interpolateNumber r0 r1 (normalize d0 d1 x)))"

definition xScale :: "starmap \<Rightarrow> jsnum \<Rightarrow> jsnum option" where
  "xScale sm = scaleLinear (Fin 0, Fin 360) (margin_left, js_sub (width sm) margin_right)"

definition yScale :: "starmap \<Rightarrow> jsnum \<Rightarrow> jsnum option" where
  "yScale sm = scaleLinear (Fin (-90), Fin 90) (js_sub (height sm) margin_bottom, margin_top)"

subsection \<open>Rendering and filtering\<close>

definition render_marker :: "starmap \<Rightarrow> exoplanet \<Rightarrow> marker" where
  "render_marker sm d =
     \<lparr> datum = d,
       attr_cx = xScale sm (ra d),
       attr_cy = yScale sm (dec d),
       attr_r = calculateSize d,
       attr_fill = fill_color d,
       attr_opacity = num 0.8 \<rparr>"

text \<open>\<^verbatim>\<open>render\<close>: the previous content is removed and one circle is appended per record.
  Without an svg the call throws a TypeError; the data join of d3 on a value that is not
  an array is outside the model.  Both are \<open>None\<close>.\<close>

definition render :: "starmap \<Rightarrow> starmap option" where
  "render sm =
     (case svg sm of
        None \<Rightarrow> None
      | Some _ \<Rightarrow>
          (case exoplanets sm of
             Records ds \<Rightarrow> Some (sm\<lparr>svg := Some (map (render_marker sm) ds)\<rparr>)
           | NotAnArray \<Rightarrow> None))"




subsection \<open>Sample data\<close>

text \<open>
  \<^verbatim>\<open>Math.random\<close> is the parameter \<open>random\<close>: \<open>random k\<close> is the double returned by the
  \<open>k\<close>-th call.  The object literal of one iteration makes nine calls, in the order of its
  properties.
\<close>

definition classifications :: "string list" where
  "classifications = [''Confirmed Exoplanet'', ''Candidate'', ''False Positive'']"

text \<open>Array access with a Number: \<^verbatim>\<open>undefined\<close> unless the index is an integer within
  the array.\<close>

definition array_get :: "string list \<Rightarrow> jsnum \<Rightarrow> jsval" where
  "array_get xs i =
     (case i of
        Fin x \<Rightarrow>
          if x = of_int \<lfloor>x\<rfloor> \<and> 0 \<le> x \<and> nat \<lfloor>x\<rfloor> < length xs then Str (xs ! nat \<lfloor>x\<rfloor>)
          else Undefined
      | _ \<Rightarrow> Undefined)"

definition sample_record :: "(nat \<Rightarrow> real) \<Rightarrow> nat \<Rightarrow> exoplanet" where
  "sample_record random i =
     (let rand = (\<lambda>k. Fin (random (9 * i + k)))
      in \<lparr> exo_id = ''KOI-'' @ nat_to_string (1000 + i),
           name = ''KOI-'' @ nat_to_string (1000 + i),
           ra = js_mul (rand 0) (Fin 360),
           dec = js_mul (js_sub (rand 1) (Fin 0.5)) (Fin 180),
           classification = array_get classifications (Math_floor (js_mul (rand 2) (Fin 3))),
           period = js_mul (rand 3) (Fin 100),
           radius = js_mul (rand 4) (Fin 15),
           temperature = js_add (Fin 300) (js_mul (rand 5) (Fin 1700)),
           depth = js_mul (rand 6) (Fin 2000),
           snr = js_mul (rand 7) (Fin 20),
           magnitude = js_add (Fin 8) (js_mul (rand 8) (Fin 7)) \<rparr>)"

function sample_loop :: "(nat \<Rightarrow> real) \<Rightarrow> nat \<Rightarrow> exoplanet list \<Rightarrow> exoplanet list" where
  "sample_loop random i data =
     (if i < 100 then sample_loop random (Suc i) (data @ [sample_record random i]) else data)"
  by pat_completeness auto
termination
  by (relation "measure (\<lambda>(random, i, data). 100 - i)") auto

definition generateSampleData :: "(nat \<Rightarrow> real) \<Rightarrow> exoplanet list" where
  "generateSampleData random = sample_loop random 0 []"

text \<open>\<^verbatim>\<open>loadExoplanetData\<close>: a rejected fetch and a body that is not JSON are caught and
  replaced by sample data; any parsed value is stored as it is, whatever the status.\<close>

definition loadExoplanetData ::
    "(nat \<Rightarrow> real) \<Rightarrow> exoplanets_json fetch_result \<Rightarrow> starmap \<Rightarrow> starmap" where
  "loadExoplanetData random outcome sm =
     (case outcome of
        Rejected _ \<Rightarrow> sm\<lparr>exoplanets := Records (generateSampleData random)\<rparr>
      | Response _ (SyntaxError _) \<Rightarrow> sm\<lparr>exoplanets := Records (generateSampleData random)\<rparr>
      | Response _ (Parsed v) \<Rightarrow> sm\<lparr>exoplanets := v\<rparr>)"

text \<open>\<^verbatim>\<open>init\<close>: load the data, create the svg and the scales, render.\<close>

definition init :: "(nat \<Rightarrow> real) \<Rightarrow> exoplanets_json fetch_result \<Rightarrow> starmap \<Rightarrow> starmap option" where
  "init random outcome sm = render ((loadExoplanetData random outcome sm)\<lparr>svg := Some []\<rparr>)"

section \<open>Application controller\<close>

text \<open>The document: the content (innerHTML or textContent) of the elements that have an
  id.  \<^verbatim>\<open>getElementById\<close> of an absent id is \<^verbatim>\<open>null\<close>.  Strings are sequences of UTF-8
  bytes.\<close>

type_synonym document = "string \<rightharpoonup> string"

definition getElementById :: "document \<Rightarrow> string \<Rightarrow> string option" where
  "getElementById doc i = doc i"

text \<open>A computation that may throw: \<open>Inl\<close> carries the message of the exception.\<close>

type_synonym 'a thrown = "string + 'a"

text \<open>The message of the TypeError of a property access on \<^verbatim>\<open>null\<close> (the wording is the
  host's; this is V8's).\<close>

definition null_property_error :: "string \<Rightarrow> string" where
  \<open>null_property_error p = ''Cannot read properties of null (reading '' @ [CHR 0x27] @ p @ [CHR 0x27] @ '')''\<close>

definition null_set_error :: "string \<Rightarrow> string" where
  \<open>null_set_error p = ''Cannot set properties of null (setting '' @ [CHR 0x27] @ p @ [CHR 0x27] @ '')''\<close>

text \<open>\<^verbatim>\<open>Object.entries\<close> of \<^verbatim>\<open>undefined\<close>.\<close>

definition entries_error :: string where
  "entries_error = ''Cannot convert undefined or null to object''"

definition loading_html :: "string \<Rightarrow> string" where
  \<open>loading_html message =
       ''\<newline>''
       @ ''            <div class="text-center">\<newline>''
       @ ''                <div class="spinner-border text-success mb-2" role="status"></div>\<newline>''
       @ ''                <p>''
       @ message
       @ ''</p>\<newline>''
       @ ''            </div>\<newline>''
       @ ''        ''\<close>

definition showLoading :: "string \<Rightarrow> string \<Rightarrow> document \<Rightarrow> document thrown" where
  "showLoading cid message doc =
     (case getElementById doc cid of
        None \<Rightarrow> Inl (null_set_error ''innerHTML'')
      | Some _ \<Rightarrow> Inr (doc(cid \<mapsto> loading_html message)))"

definition error_html :: "string \<Rightarrow> string" where
  \<open>error_html message =
       ''\<newline>''
       @ ''            <div class="alert alert-danger">\<newline>''
       @ ''                <strong>Error:</strong> ''
       @ message
       @ ''\<newline>''
       @ ''            </div>\<newline>''
       @ ''        ''\<close>

definition displayError :: "string \<Rightarrow> string \<Rightarrow> document \<Rightarrow> document thrown" where
  "displayError cid message doc =
     (case getElementById doc cid of
        None \<Rightarrow> Inl (null_set_error ''innerHTML'')
      | Some _ \<Rightarrow> Inr (doc(cid \<mapsto> error_html message)))"

text \<open>The parsed body of a reply to a form submission: \<^verbatim>\<open>null\<close>, or an object with an
  optional \<^verbatim>\<open>error\<close> string and the fields of the endpoint.\<close>

record 'p reply =
  error :: "string option"
  payload :: 'p

datatype 'p parsed = JsonNull | JsonObject "'p reply"

text \<open>The reply of \<^verbatim>\<open>/api/classify\<close>.  The numbers are integers (they are printed by a
  template literal); \<^verbatim>\<open>probabilities\<close> and \<^verbatim>\<open>model_report\<close> may be absent.\<close>

record classification_result =
  prediction :: string
  confidence :: int
  probabilities :: "(string \<times> int) list option"
  model_report :: "string option"

text \<open>\<^verbatim>\<open>Array.prototype.join\<close> on strings.\<close>

fun intercalate_str :: "string \<Rightarrow> string list \<Rightarrow> string" where
  "intercalate_str sep [] = []"
| "intercalate_str sep [x] = x"
| "intercalate_str sep (x # y # ys) = x @ sep @ intercalate_str sep (y # ys)"

definition classification_html :: "classification_result \<Rightarrow> (string \<times> int) list \<Rightarrow> string" where
  \<open>classification_html res ps =
       ''\<newline>''
       @ ''            <div class="card bg-light text-dark mb-3">\<newline>''
       @ ''                <div class="card-body">\<newline>''
       @ ''                    <h5 class="card-title">ML Prediction</h5>\<newline>''
       @ ''                    <p class="card-text">\<newline>''
       @ ''                        <strong>Class:</strong> <span class="text-primary">''
       @ prediction res
       @ ''</span><br>\<newline>''
       @ ''                        <strong>Confidence:</strong> ''
       @ int_to_string (confidence res)
       @ ''%<br>\<newline>''
       @ ''                        <strong>Probabilities:</strong> ''
       @ intercalate_str '' / '' (map (\<lambda>(label, p). label @ '': '' @ int_to_string p @ ''%'') ps)
       @ ''\<newline>''
       @ ''                    </p>\<newline>''
       @ ''                </div>\<newline>''
       @ ''            </div>\<newline>''
       @ ''        ''\<close>

definition model_report_html :: "string \<Rightarrow> string" where
  \<open>model_report_html report =
       ''\<newline>''
       @ ''                <div class="card bg-light text-dark">\<newline>''
       @ ''                    <div class="card-body">\<newline>''
       @ ''                        <h6 class="card-title">Model Training Report</h6>\<newline>''
       @ ''                        <pre class="small">''
       @ report
       @ ''</pre>\<newline>''
       @ ''                        <small class="text-muted">This report shows the accuracy and reliability of the ML model based on training data.</small>\<newline>''
       @ ''                    </div>\<newline>''
       @ ''                </div>\<newline>''
       @ ''            ''\<close>

text \<open>\<^verbatim>\<open>displayClassificationResult\<close>: nothing happens without the container; the template
  is evaluated before the assignment, so an exception leaves the document as it was; the
  report is written when its element exists and the report is a non-empty string.\<close>

definition displayClassificationResult ::
    "classification_result parsed \<Rightarrow> string \<Rightarrow> document \<Rightarrow> document thrown" where
  "displayClassificationResult result cid doc =
     (case getElementById doc cid of
        None \<Rightarrow> Inr doc
      | Some _ \<Rightarrow>
          (case result of
             JsonNull \<Rightarrow> Inl (null_property_error ''prediction'')
           | JsonObject obj \<Rightarrow>
               (case probabilities (payload obj) of
                  None \<Rightarrow> Inl entries_error
                | Some ps \<Rightarrow>
                    (let doc1 = doc(cid \<mapsto> classification_html (payload obj) ps)
                     in case (getElementById doc1 ''model-report'', model_report (payload obj)) of
                          (Some _, Some report) \<Rightarrow>
                            if report = [] then Inr doc1
                            else Inr (doc1(''model-report'' \<mapsto> model_report_html report))
                        | _ \<Rightarrow> Inr doc1))))"

text \<open>
  The three submit handlers are one text with different constants.  \<^verbatim>\<open>showLoading\<close> runs
  before the \<^verbatim>\<open>try\<close>; inside it a rejected fetch, a body that is not JSON, a reply that is
  not ok and an exception of the display function all end in the \<^verbatim>\<open>catch\<close>, which calls
  \<^verbatim>\<open>displayError\<close> with the message of the exception.
\<close>

definition error_message :: "'p parsed \<Rightarrow> string \<Rightarrow> string" where
  "error_message result generic =
     (case result of
        JsonNull \<Rightarrow> null_property_error ''error''
      | JsonObject obj \<Rightarrow>
          (case error obj of
             None \<Rightarrow> generic
           | Some e \<Rightarrow> if e = [] then generic else e))"

definition submit_try ::
    "string \<Rightarrow> ('p parsed \<Rightarrow> document \<Rightarrow> document thrown) \<Rightarrow> 'p parsed fetch_result
      \<Rightarrow> document \<Rightarrow> document thrown" where
  "submit_try generic display outcome doc =
     (case outcome of
        Rejected m \<Rightarrow> Inl m
      | Response ok (SyntaxError m) \<Rightarrow> Inl m
      | Response ok (Parsed result) \<Rightarrow>
          if ok then display result doc else Inl (error_message result generic))"

definition handle_submit ::
    "string \<Rightarrow> string \<Rightarrow> string \<Rightarrow> ('p parsed \<Rightarrow> document \<Rightarrow> document thrown)
      \<Rightarrow> 'p parsed fetch_result \<Rightarrow> document \<Rightarrow> document thrown" where
  "handle_submit cid loading generic display outcome doc =
     (case showLoading cid loading doc of
        Inl e \<Rightarrow> Inl e
      | Inr doc1 \<Rightarrow>
          (case submit_try generic display outcome doc1 of
             Inr doc2 \<Rightarrow> Inr doc2
           | Inl m \<Rightarrow> displayError cid m doc1))"

definition handleClassification ::
    "classification_result parsed fetch_result \<Rightarrow> document \<Rightarrow> document thrown" where
  \<open>handleClassification =
     handle_submit ''classify-result'' ''Analizando datos...''
       (''Error en clasificaci'' @ [CHR 0xC3] @ [CHR 0xB3] @ ''n'')
       (\<lambda>result. displayClassificationResult result ''classify-result'')\<close>



subsection \<open>Statistics readout\<close>

record stats =
  total_count :: nat
  confirmed :: nat
  candidates :: nat
  falsePositives :: nat

definition statistics :: "exoplanet list \<Rightarrow> stats" where
  "statistics es =
     \<lparr> total_count = length es,
       confirmed = length (filter (\<lambda>e. classification e = Str ''Confirmed Exoplanet'') es),
       candidates = length (filter (\<lambda>e. classification e = Str ''Candidate'') es),
       falsePositives = length (filter (\<lambda>e. classification e = Str ''False Positive'') es) \<rparr>"

text \<open>\<^verbatim>\<open>updateStatisticsDisplay\<close>: the four entries in the order of the object literal; an
  entry whose element is absent is skipped.  \<^verbatim>\<open>toLocaleString\<close> is the host's number
  formatting and is a parameter.\<close>

definition setTextContent :: "document \<Rightarrow> string \<times> string \<Rightarrow> document" where
  "setTextContent doc entry =
     (case getElementById doc (fst entry) of
        None \<Rightarrow> doc
      | Some _ \<Rightarrow> doc(fst entry \<mapsto> snd entry))"

definition updateStatisticsDisplay :: "(nat \<Rightarrow> string) \<Rightarrow> stats \<Rightarrow> document \<Rightarrow> document" where
  "updateStatisticsDisplay toLocaleString s doc =
     foldl setTextContent doc
       [(''total-exoplanets'', toLocaleString (total_count s)),
        (''confirmed-exoplanets'', toLocaleString (confirmed s)),
        (''candidate-exoplanets'', toLocaleString (candidates s)),
        (''false-positive-exoplanets'', toLocaleString (falsePositives s))]"

text \<open>\<^verbatim>\<open>loadExoplanetStatistics\<close>: any exception (rejected fetch, body that is not JSON,
  a parsed value without \<^verbatim>\<open>filter\<close>) is caught and only logged.\<close>

definition loadExoplanetStatistics ::
    "(nat \<Rightarrow> string) \<Rightarrow> exoplanets_json fetch_result \<Rightarrow> document \<Rightarrow> document" where
  "loadExoplanetStatistics toLocaleString outcome doc =
     (case outcome of
        Response _ (Parsed (Records es)) \<Rightarrow>
          updateStatisticsDisplay toLocaleString (statistics es) doc
      | _ \<Rightarrow> doc)"

subsection \<open>Theme preference\<close>




section \<open>Rounding\<close>

text \<open>Rounding to the nearest double is odd, monotone and idempotent; the value at a
  given argument is found from its binade (\<open>rnd_eqI\<close>).\<close>

lemma rne_of_int [simp]: "rne (of_int k) = k"
  by (simp add: rne_def)

lemma rne_ge_floor: "\<lfloor>y\<rfloor> \<le> rne y"
  by (simp add: rne_def)

lemma rne_le_floor1: "rne y \<le> \<lfloor>y\<rfloor> + 1"
  by (simp add: rne_def)

lemma rne_mono: "x \<le> y \<Longrightarrow> rne x \<le> rne y"
proof -
  assume xy: "x \<le> y"
  have fxy: "\<lfloor>x\<rfloor> \<le> \<lfloor>y\<rfloor>" using xy by (rule floor_mono)
  show ?thesis
  proof (cases "\<lfloor>x\<rfloor> = \<lfloor>y\<rfloor>")
    case True
    then show ?thesis using xy by (auto simp: rne_def)
  next
    case False
    then have "\<lfloor>x\<rfloor> + 1 \<le> \<lfloor>y\<rfloor>" using fxy by simp
    then show ?thesis using rne_le_floor1 [of x] rne_ge_floor [of y] by linarith
  qed
qed

lemma rne_minus: "rne (- y) = - rne y"
proof (cases "y = of_int \<lfloor>y\<rfloor>")
  case True
  then obtain k where "y = of_int k" ..
  then show ?thesis by (simp flip: of_int_minus)
next
  case False
  then have fl: "\<lfloor>- y\<rfloor> = - \<lfloor>y\<rfloor> - 1"
    by (simp add: floor_minus ceiling_altdef)
  show ?thesis
    using False unfolding rne_def fl by (auto simp: algebra_simps)
qed

lemma rne_ge_int: "of_int k \<le> y \<Longrightarrow> k \<le> rne y"
  using rne_mono [of "of_int k" y] by simp

lemma rne_le_int: "y \<le> of_int k \<Longrightarrow> rne y \<le> k"
  using rne_mono [of y "of_int k"] by simp

lemma rne_err: "\<bar>of_int (rne y) - y\<bar> \<le> 1/2"
proof -
  define f where "f = \<lfloor>y\<rfloor>"
  have b: "of_int f \<le> y" "y < of_int f + 1" unfolding f_def by linarith+
  have "rne y = (if y - of_int f < 1/2 then f
            else if 1/2 < y - of_int f then f + 1
            else if even f then f else f + 1)"
    unfolding rne_def f_def ..
  then show ?thesis using b by (auto simp: abs_if)
qed

lemma ulp_pos [simp]: "0 < ulp x"
  by (simp add: ulp_def)

lemma ulp_nonneg [simp]: "0 \<le> ulp x"
  by (simp add: ulp_def)

lemma ulp_neq0 [simp]: "ulp x \<noteq> 0"
  by (simp add: ulp_def)

lemma rne_0 [simp]: "rne 0 = 0"
  by (simp add: rne_def)

lemma pos_of_normal: "2 powr (-1022) \<le> (a::real) \<Longrightarrow> 0 < a"
proof -
  assume a: "2 powr (-1022) \<le> a"
  have "0 < (2::real) powr (-1022)" by simp
  then show "0 < a" using a by linarith
qed

lemma ulp_exp_minus [simp]: "ulp_exp (- x) = ulp_exp x"
  by (simp add: ulp_exp_def)

lemma ulp_minus [simp]: "ulp (- x) = ulp x"
  by (simp add: ulp_def)

lemma ulp_exp_abs [simp]: "ulp_exp \<bar>x\<bar> = ulp_exp x"
  by (simp add: ulp_exp_def)

lemma ulp_exp_ge: "- 1074 \<le> ulp_exp x"
proof (cases "\<bar>x\<bar> < 2 powr (-1022)")
  case True
  then show ?thesis by (simp add: ulp_exp_def)
next
  case False
  then have "2 powr (-1022) \<le> \<bar>x\<bar>" by simp
  then have "log 2 (2 powr (-1022)) \<le> log 2 \<bar>x\<bar>"
    using pos_of_normal [of "\<bar>x\<bar>"] by (subst log_le_cancel_iff) simp_all
  then have "- 1022 \<le> log 2 \<bar>x\<bar>" by simp
  then have k: "- 1022 \<le> \<lfloor>log 2 \<bar>x\<bar>\<rfloor>" by (simp add: le_floor_iff)
  have e: "ulp_exp x = \<lfloor>log 2 \<bar>x\<bar>\<rfloor> - 52" using False by (simp add: ulp_exp_def)
  show ?thesis using k e by linarith
qed

lemma normal_bounds:
  assumes "2 powr (-1022) \<le> \<bar>x\<bar>"
  shows "2 powr of_int (ulp_exp x + 52) \<le> \<bar>x\<bar>" "\<bar>x\<bar> < 2 powr of_int (ulp_exp x + 53)"
proof -
  have pos: "0 < \<bar>x\<bar>" using assms by (rule pos_of_normal)
  have e: "ulp_exp x = \<lfloor>log 2 \<bar>x\<bar>\<rfloor> - 52" using assms by (simp add: ulp_exp_def)
  have "\<lfloor>log 2 \<bar>x\<bar>\<rfloor> = ulp_exp x + 52" using e by simp
  then have "2 powr of_int (ulp_exp x + 52) \<le> \<bar>x\<bar> \<and> \<bar>x\<bar> < 2 powr (of_int (ulp_exp x + 52) + 1)"
    using floor_log_eq_powr_iff [OF pos, of 2 "ulp_exp x + 52"] by simp
  then show "2 powr of_int (ulp_exp x + 52) \<le> \<bar>x\<bar>" "\<bar>x\<bar> < 2 powr of_int (ulp_exp x + 53)"
    by (simp_all add: add.commute)
qed

lemma abs_less_top: "\<bar>x\<bar> < 2 powr of_int (ulp_exp x + 53)"
proof (cases "\<bar>x\<bar> < 2 powr (-1022)")
  case True
  then have e: "ulp_exp x = - 1074" by (simp add: ulp_exp_def)
  have "(2::real) powr (-1022) \<le> 2 powr (-1021)" by (subst powr_le_cancel_iff) simp_all
  with True have "\<bar>x\<bar> < 2 powr (-1021)" by (rule less_le_trans)
  then show ?thesis using e by simp
next
  case False
  then show ?thesis using normal_bounds(2) [of x] by simp
qed

lemma ulp_exp_mono: "\<bar>x\<bar> \<le> \<bar>y\<bar> \<Longrightarrow> ulp_exp x \<le> ulp_exp y"
proof -
  assume xy: "\<bar>x\<bar> \<le> \<bar>y\<bar>"
  show ?thesis
  proof (cases "\<bar>x\<bar> < 2 powr (-1022)")
    case True
    then show ?thesis using ulp_exp_ge [of y] by (simp add: ulp_exp_def)
  next
    case False
    then have nx: "2 powr (-1022) \<le> \<bar>x\<bar>" by simp
    then have ny: "2 powr (-1022) \<le> \<bar>y\<bar>" using xy by simp
    have pos: "0 < \<bar>x\<bar>" using nx by (rule pos_of_normal)
    have "log 2 \<bar>x\<bar> \<le> log 2 \<bar>y\<bar>" using xy pos by simp
    then have "\<lfloor>log 2 \<bar>x\<bar>\<rfloor> \<le> \<lfloor>log 2 \<bar>y\<bar>\<rfloor>" by (rule floor_mono)
    then show ?thesis using nx ny by (simp add: ulp_exp_def)
  qed
qed

lemma rnd_0 [simp]: "rnd 0 = 0"
  by (simp add: rnd_def)

lemma rnd_minus: "rnd (- x) = - rnd x"
  by (simp add: rnd_def rne_minus)

lemma rnd_nonneg: "0 \<le> x \<Longrightarrow> 0 \<le> rnd x"
proof -
  assume "0 \<le> x"
  then have "of_int 0 \<le> x / ulp x" by simp
  then have "0 \<le> rne (x / ulp x)" by (rule rne_ge_int)
  then show ?thesis by (simp add: rnd_def)
qed

lemma rnd_upper: 
  assumes "0 \<le> x" shows "rnd x \<le> 2 powr of_int (ulp_exp x + 53)"
proof -
  have "x < 2 powr of_int (ulp_exp x + 53)" using abs_less_top [of x] assms by simp
  also have "\<dots> = 2 powr 53 * ulp x" by (simp add: ulp_def powr_add del: powr_numeral)
  finally have "x / ulp x < 2 powr 53" by (simp add: pos_divide_less_eq)
  then have "x / ulp x \<le> of_int (2 ^ 53)" by simp
  then have "rne (x / ulp x) \<le> 2 ^ 53" by (rule rne_le_int)
  then have "of_int (rne (x / ulp x)) \<le> (2::real) ^ 53" 
    by (metis of_int_le_iff of_int_numeral of_int_power)
  then have "rnd x \<le> 2 ^ 53 * ulp x" unfolding rnd_def by (simp add: mult_right_mono)
  also have "\<dots> = 2 powr of_int (ulp_exp x + 53)" by (simp add: ulp_def powr_add)
  finally show ?thesis .
qed

lemma rnd_lower:
  assumes "2 powr (-1022) \<le> x" shows "2 powr of_int (ulp_exp x + 52) \<le> rnd x"
proof -
  have x0: "0 \<le> x" using pos_of_normal [OF assms] by simp
  have "2 powr of_int (ulp_exp x + 52) \<le> x" using normal_bounds(1) [of x] assms x0 by simp
  moreover have "2 powr of_int (ulp_exp x + 52) = 2 powr 52 * ulp x" 
    by (simp add: ulp_def powr_add del: powr_numeral)
  ultimately have "2 powr 52 \<le> x / ulp x" by (simp add: pos_le_divide_eq)
  then have "of_int (2 ^ 52) \<le> x / ulp x" by simp
  then have "2 ^ 52 \<le> rne (x / ulp x)" by (rule rne_ge_int)
  then have "(2::real) ^ 52 \<le> of_int (rne (x / ulp x))"
    by (metis of_int_le_iff of_int_numeral of_int_power)
  then have "2 ^ 52 * ulp x \<le> rnd x" unfolding rnd_def by (simp add: mult_right_mono)
  moreover have "2 ^ 52 * ulp x = 2 powr of_int (ulp_exp x + 52)" by (simp add: ulp_def powr_add)
  ultimately show ?thesis by simp
qed

lemma rnd_mono_nonneg:
  assumes "0 \<le> x" "x \<le> y" shows "rnd x \<le> rnd y"
proof (cases "ulp_exp x = ulp_exp y")
  case True
  then have u: "ulp x = ulp y" by (simp add: ulp_def)
  have "x / ulp y \<le> y / ulp y" using assms by (simp add: divide_right_mono)
  then have "rne (x / ulp y) \<le> rne (y / ulp y)" by (rule rne_mono)
  then show ?thesis unfolding rnd_def u by (simp add: mult_right_mono)
next
  case False
  have "ulp_exp x \<le> ulp_exp y" using assms by (intro ulp_exp_mono) simp
  then have lt: "ulp_exp x + 1 \<le> ulp_exp y" using False by simp
  have "ulp_exp y \<noteq> - 1074" using lt ulp_exp_ge [of x] by simp
  then have ny: "2 powr (-1022) \<le> y" using assms by (auto simp: ulp_exp_def split: if_splits)
  have "rnd x \<le> 2 powr of_int (ulp_exp x + 53)" using assms by (intro rnd_upper)
  also have "\<dots> \<le> 2 powr of_int (ulp_exp y + 52)" using lt by (subst powr_le_cancel_iff) simp_all
  also have "\<dots> \<le> rnd y" using ny by (rule rnd_lower)
  finally show ?thesis .
qed

lemma rnd_mono: "x \<le> y \<Longrightarrow> rnd x \<le> rnd y"
proof -
  assume xy: "x \<le> y"
  consider "0 \<le> x" | "x < 0" "0 \<le> y" | "y < 0" by linarith
  then show ?thesis
  proof cases
    case 1
    then show ?thesis using xy by (rule rnd_mono_nonneg)
  next
    case 2
    have "rnd (- x) \<ge> 0" using 2 by (intro rnd_nonneg) simp
    moreover have "0 \<le> rnd y" using 2 by (intro rnd_nonneg)
    ultimately show ?thesis by (simp add: rnd_minus)
  next
    case 3
    have "rnd (- y) \<le> rnd (- x)" using 3 xy by (intro rnd_mono_nonneg) simp_all
    then show ?thesis by (simp add: rnd_minus)
  qed
qed

lemma rne_eqI:
  assumes "of_int k - 1/2 < y" "y < of_int k + 1/2" shows "rne y = k"
proof -
  have "\<bar>of_int (rne y) - y\<bar> \<le> 1/2" by (rule rne_err)
  then have "\<bar>(of_int (rne y) :: real) - of_int k\<bar> < 1" using assms by linarith
  then have "\<bar>rne y - k\<bar> < 1" by (metis of_int_abs of_int_diff of_int_less_1_iff)
  then show ?thesis by linarith
qed

lemma rnd_exact: "x / ulp x = of_int k \<Longrightarrow> rnd x = x"
proof -
  assume h: "x / ulp x = of_int k"
  have "rnd x = of_int k * ulp x" by (simp add: rnd_def h)
  also have "\<dots> = (x / ulp x) * ulp x" by (simp only: h)
  also have "\<dots> = x" by simp
  finally show ?thesis .
qed

lemma ulp_exp_eq:
  assumes "2 powr of_int E \<le> \<bar>x\<bar>" "\<bar>x\<bar> < 2 powr of_int (E + 1)" "- 1022 \<le> E"
  shows "ulp_exp x = E - 52"
proof -
  have "(2::real) powr (-1022) \<le> 2 powr of_int E" using assms(3) by (subst powr_le_cancel_iff) simp_all
  then have n: "2 powr (-1022) \<le> \<bar>x\<bar>" using assms(1) by linarith
  then have pos: "0 < \<bar>x\<bar>" by (rule pos_of_normal)
  have "\<lfloor>log 2 \<bar>x\<bar>\<rfloor> = E"
    using floor_log_eq_powr_iff [OF pos, of 2 E] assms by (simp add: add.commute)
  then show ?thesis using n by (simp add: ulp_exp_def)
qed

lemma rnd_eqI:
  assumes "2 powr of_int E \<le> \<bar>x\<bar>" "\<bar>x\<bar> < 2 powr of_int (E + 1)" "- 1022 \<le> E"
    and "of_int k - 1/2 < x / 2 powr of_int (E - 52)" "x / 2 powr of_int (E - 52) < of_int k + 1/2"
  shows "rnd x = of_int k * 2 powr of_int (E - 52)"
proof -
  have e: "ulp_exp x = E - 52" using assms(1-3) by (rule ulp_exp_eq)
  have "rne (x / 2 powr of_int (E - 52)) = k" using assms(4,5) by (rule rne_eqI)
  then show ?thesis by (simp add: rnd_def ulp_def e)
qed


lemma rnd_rnd_nonneg:
  assumes "0 \<le> x" shows "rnd (rnd x) = rnd x"
proof -
  define e where "e = ulp_exp x"
  define k where "k = rne (x / ulp x)"
  define r where "r = rnd x"
  have r: "r = of_int k * 2 powr of_int e" by (simp add: r_def rnd_def k_def ulp_def e_def)
  have r0: "0 \<le> r" unfolding r_def using assms by (rule rnd_nonneg)
  have up: "r \<le> 2 powr of_int (e + 53)" unfolding r_def e_def using assms by (rule rnd_upper)
  show ?thesis
  proof (cases "r < 2 powr (-1022)")
    case True
    then have er: "ulp_exp r = - 1074" using r0 by (simp add: ulp_exp_def)
    have "e = - 1074"
    proof (rule ccontr)
      assume "e \<noteq> - 1074"
      then have nx: "2 powr (-1022) \<le> x" using assms unfolding e_def
        by (auto simp: ulp_exp_def split: if_splits)
      have "- 1074 \<le> e" unfolding e_def by (rule ulp_exp_ge)
      then have "(2::real) powr (-1022) \<le> 2 powr of_int (e + 52)"
        by (subst powr_le_cancel_iff) simp_all
      also have "\<dots> \<le> r" unfolding r_def e_def using nx by (rule rnd_lower)
      finally show False using True by simp
    qed
    then have "r / ulp r = of_int k" using er by (simp add: r ulp_def)
    then show ?thesis unfolding r_def [symmetric] by (rule rnd_exact)
  next
    case False
    then have nr: "2 powr (-1022) \<le> \<bar>r\<bar>" using r0 by simp
    have lo: "2 powr of_int (e + 52) \<le> r"
    proof (cases "x < 2 powr (-1022)")
      case True
      then have "e = - 1074" using assms by (simp add: e_def ulp_exp_def)
      then show ?thesis using False by simp
    next
      case False
      then show ?thesis unfolding r_def e_def by (intro rnd_lower) simp
    qed
    have b1: "2 powr of_int (ulp_exp r + 52) \<le> r" using normal_bounds(1) [OF nr] r0 by simp
    have b2: "r < 2 powr of_int (ulp_exp r + 53)" using normal_bounds(2) [OF nr] r0 by simp
    have "(2::real) powr of_int (e + 52) < 2 powr of_int (ulp_exp r + 53)" using lo b2 by linarith
    then have ge: "e \<le> ulp_exp r" by simp
    have "(2::real) powr of_int (ulp_exp r + 52) \<le> 2 powr of_int (e + 53)" using b1 up by linarith
    then have le: "ulp_exp r \<le> e + 1" by simp
    consider "ulp_exp r = e" | "ulp_exp r = e + 1" using ge le by linarith
    then show ?thesis
    proof cases
      case 1
      then have "r / ulp r = of_int k" by (simp add: r ulp_def)
      then show ?thesis unfolding r_def [symmetric] by (rule rnd_exact)
    next
      case 2
      have eq: "ulp_exp r + 52 = e + 53" using 2 by simp
      have "2 powr of_int (e + 53) \<le> r" using b1 unfolding eq .
      then have req: "r = 2 powr of_int (e + 53)" using up by linarith
      have u: "ulp r = 2 powr of_int (e + 1)" by (simp add: ulp_def 2)
      have "r / ulp r = r / 2 powr of_int (e + 1)" by (simp only: u)
      also have "\<dots> = 2 powr of_int (e + 53) / 2 powr of_int (e + 1)" using req by simp
      also have "\<dots> = 2 powr 52" by (simp add: powr_add del: powr_numeral)
      also have "\<dots> = of_int (2 ^ 52)" by simp
      finally show ?thesis unfolding r_def [symmetric] by (rule rnd_exact)
    qed
  qed
qed

lemma rnd_rnd [simp]: "rnd (rnd x) = rnd x"
proof (cases "0 \<le> x")
  case True
  then show ?thesis by (rule rnd_rnd_nonneg)
next
  case False
  then have "rnd (rnd (- x)) = rnd (- x)" by (intro rnd_rnd_nonneg) simp
  then show ?thesis by (simp add: rnd_minus)
qed

subsection \<open>Rounding error\<close>




subsection \<open>Doubles\<close>

lemma fl_not_NaN [simp]: "fl x \<noteq> NaN"
  by (simp add: fl_def)


lemma overflow_threshold_pos [simp]: "0 < overflow_threshold"
  by (simp add: overflow_threshold_def)

lemma fl_Fin_iff: "fl x = Fin y \<longleftrightarrow> y = rnd x \<and> \<bar>rnd x\<bar> < overflow_threshold"
  by (auto simp: fl_def)


lemma is_double_iff: "is_double x \<longleftrightarrow> rnd x = x \<and> \<bar>x\<bar> < overflow_threshold"
  by (auto simp: is_double_def fl_Fin_iff)

lemma fl_double [simp]: "is_double x \<Longrightarrow> fl x = Fin x"
  by (simp add: is_double_def)

lemma below_threshold: "\<bar>x\<bar> \<le> 2 ^ 53 \<Longrightarrow> \<bar>x\<bar> < overflow_threshold"
proof -
  assume a: "\<bar>x\<bar> \<le> 2 ^ 53"
  have "(2::real) ^ 53 < 2 ^ 1024" by (rule power_strict_increasing) simp_all
  with a show ?thesis unfolding overflow_threshold_def by (rule le_less_trans)
qed

lemma rnd_of_int:
  assumes "\<bar>n\<bar> < 2 ^ 53" shows "rnd (of_int n) = of_int n"
proof (cases "n = 0")
  case True
  then show ?thesis by simp
next
  case False
  define x :: real where "x = of_int n"
  have x1: "1 \<le> \<bar>x\<bar>" using False unfolding x_def by (metis of_int_abs of_int_1_le_iff zero_less_abs_iff zless_imp_add1_zle add_0)
  have "(2::real) powr (-1022) \<le> 2 powr 0" by (subst powr_le_cancel_iff) simp_all
  then have n: "2 powr (-1022) \<le> \<bar>x\<bar>" using x1 by simp
  have "\<bar>x\<bar> < 2 ^ 53" using assms unfolding x_def by (metis of_int_abs of_int_less_iff of_int_numeral of_int_power)
  then have "\<bar>x\<bar> < 2 powr of_int 53" by simp
  moreover have "2 powr of_int (ulp_exp x + 52) \<le> \<bar>x\<bar>" using n by (rule normal_bounds)
  ultimately have "(2::real) powr of_int (ulp_exp x + 52) < 2 powr of_int 53" by linarith
  then have "of_int (ulp_exp x + 52) < (of_int 53 :: real)" by (rule powr_less_cancel) simp
  then have "ulp_exp x + 52 < 53" by (simp only: of_int_less_iff)
  then have e: "ulp_exp x \<le> 0" by simp
  define m where "m = nat (- ulp_exp x)"
  have "ulp x = 2 powr (- of_nat m)" using e by (simp add: ulp_def m_def)
  also have "\<dots> = 1 / 2 ^ m" by (simp add: powr_minus powr_realpow divide_inverse)
  finally have "x / ulp x = of_int (n * 2 ^ m)" by (simp add: x_def)
  then show ?thesis unfolding x_def [symmetric] by (rule rnd_exact)
qed

lemma fl_of_int:
  assumes "\<bar>n\<bar> < 2 ^ 53" shows "fl (of_int n) = Fin (of_int n)"
proof -
  have "\<bar>of_int n :: real\<bar> < 2 ^ 53"
    using assms by (metis of_int_abs of_int_less_iff of_int_numeral of_int_power)
  then have "\<bar>of_int n :: real\<bar> < overflow_threshold" by (intro below_threshold) simp
  then show ?thesis using rnd_of_int [OF assms] by (simp add: fl_Fin_iff)
qed

lemma is_double_of_int: "\<bar>n\<bar> < 2 ^ 53 \<Longrightarrow> is_double (of_int n)"
  by (simp add: is_double_def fl_of_int)

lemma rnd_1 [simp]: "rnd 1 = 1"
  using rnd_of_int [of 1] by simp

lemma fl_0 [simp]: "fl 0 = Fin 0"
  by (simp add: fl_Fin_iff)

lemma fl_1 [simp]: "fl 1 = Fin 1"
  using fl_of_int [of 1] by simp

lemma is_double_0 [simp]: "is_double 0"
  by (simp add: is_double_def)

lemma is_double_1 [simp]: "is_double 1"
  by (simp add: is_double_def)






text \<open>The doubles next to a power of two, and the largest double.\<close>

lemma double_below_power:
  assumes "is_double x" "0 \<le> x" "x < 2 powr of_int (E + 1)" "- 1022 \<le> E"
  shows "x \<le> 2 powr of_int (E + 1) - 2 powr of_int (E - 52)"
proof -
  define u :: real where "u = 2 powr of_int (E - 52)"
  have u0: "0 < u" by (simp add: u_def)
  have pE: "2 powr of_int E = 2 ^ 52 * u"
    by (simp add: u_def powr_diff del: powr_numeral)
  have pE1: "2 powr of_int (E + 1) = 2 ^ 53 * u"
    by (simp add: u_def powr_diff powr_add del: powr_numeral)
  show ?thesis
  proof (cases "x < 2 powr of_int E")
    case True
    then show ?thesis using u0 unfolding pE pE1 u_def [symmetric] by simp
  next
    case False
    then have lo: "2 powr of_int E \<le> \<bar>x\<bar>" using assms(2) by simp
    have hi: "\<bar>x\<bar> < 2 powr of_int (E + 1)" using assms(2,3) by simp
    have e: "ulp_exp x = E - 52" using lo hi assms(4) by (rule ulp_exp_eq)
    define k where "k = rne (x / ulp x)"
    have ux: "ulp x = u" by (simp add: ulp_def e u_def)
    have rx: "rnd x = x" using assms(1) by (simp add: is_double_iff)
    have "rnd x = of_int k * u" unfolding rnd_def k_def ux ..
    then have xk: "x = of_int k * u" unfolding rx .
    have "of_int k * u < 2 ^ 53 * u" using assms(3) unfolding pE1 xk .
    then have "(of_int k :: real) < 2 ^ 53" using u0 by simp
    then have "(of_int k :: real) < of_int (2 ^ 53)" by simp
    then have "k < 2 ^ 53" by (simp only: of_int_less_iff)
    then have "k \<le> 2 ^ 53 - 1" by simp
    then have "(of_int k :: real) \<le> of_int (2 ^ 53 - 1)" by (simp only: of_int_le_iff)
    then have "(of_int k :: real) \<le> 2 ^ 53 - 1" by simp
    then have "of_int k * u \<le> (2 ^ 53 - 1) * u" using u0 by (intro mult_right_mono) simp_all
    also have "\<dots> = 2 ^ 53 * u - u" by (simp add: algebra_simps)
    finally show ?thesis unfolding xk pE1 u_def [symmetric] .
  qed
qed

lemma rnd_near_top:
  assumes "0 \<le> c" "c < 2 powr of_int (E - 53)" "- 1022 \<le> E"
  shows "rnd (2 powr of_int (E + 1) - 2 powr of_int (E - 52) + c)
           = 2 powr of_int (E + 1) - 2 powr of_int (E - 52)"
proof -
  define u :: real where "u = 2 powr of_int (E - 52)"
  have u0: "0 < u" by (simp add: u_def)
  have pE: "2 powr of_int E = 2 ^ 52 * u"
    by (simp add: u_def powr_diff del: powr_numeral)
  have pE1: "2 powr of_int (E + 1) = 2 ^ 53 * u"
    by (simp add: u_def powr_diff powr_add del: powr_numeral)
  have pE53: "2 powr of_int (E - 53) = u / 2"
    by (simp add: u_def powr_diff del: powr_numeral)
  define x where "x = 2 ^ 53 * u - u + c"
  have c: "c < u / 2" using assms(2) unfolding pE53 .
  have x0: "0 \<le> x" using u0 assms(1) by (simp add: x_def algebra_simps)
  have q: "x / u = 2 ^ 53 - 1 + c / u" using u0 by (simp add: x_def field_simps)
  have cu: "0 \<le> c / u" "c / u < 1 / 2" using c u0 assms(1) by (simp_all add: field_simps)
  have "rnd x = of_int (2 ^ 53 - 1) * 2 powr of_int (E - 52)"
  proof (rule rnd_eqI)
    show "2 powr of_int E \<le> \<bar>x\<bar>" unfolding pE using x0 u0 assms(1) by (simp add: x_def)
    show "\<bar>x\<bar> < 2 powr of_int (E + 1)" unfolding pE1 using x0 u0 c by (simp add: x_def)
    show "- 1022 \<le> E" by fact
    have k: "(of_int (2 ^ 53 - 1) :: real) = 2 ^ 53 - 1" by simp
    show "of_int (2 ^ 53 - 1) - 1 / 2 < x / 2 powr of_int (E - 52)"
      unfolding u_def [symmetric] q k using cu by linarith
    show "x / 2 powr of_int (E - 52) < of_int (2 ^ 53 - 1) + 1 / 2"
      unfolding u_def [symmetric] q k using cu by linarith
  qed
  also have "\<dots> = 2 ^ 53 * u - u" by (simp add: u_def algebra_simps)
  finally show ?thesis unfolding x_def pE1 u_def [symmetric] .
qed

lemma threshold_powr: "overflow_threshold = 2 powr of_int (1023 + 1)"
  by (simp add: overflow_threshold_def)

lemma is_double_abs: "is_double x \<Longrightarrow> is_double \<bar>x\<bar>"
  by (cases "0 \<le> x") (simp_all add: is_double_iff abs_if rnd_minus)

lemma double_abs_le_max:
  assumes "is_double w"
  shows "\<bar>w\<bar> \<le> overflow_threshold - 2 powr of_int (1023 - 52)"
  unfolding threshold_powr
  using is_double_abs [OF assms] assms
  by (intro double_below_power) (simp_all add: is_double_iff threshold_powr)

lemma sub_small_finite:
  assumes "is_double w" "0 \<le> c" "c \<le> 32"
  shows "\<bar>rnd (w - c)\<bar> < overflow_threshold"
proof -
  define M where "M = overflow_threshold - 2 powr of_int (1023 - 52)"
  have wM: "\<bar>w\<bar> \<le> M" unfolding M_def using assms(1) by (rule double_abs_le_max)
  have "(32::real) = 2 powr 5" by simp
  also have "\<dots> < 2 powr of_int (1023 - 53)" by (subst powr_less_cancel_iff) simp_all
  finally have c: "c < 2 powr of_int (1023 - 53)" using assms(3) by linarith
  have top: "rnd (M + c) = M"
    unfolding M_def threshold_powr using assms(2) c by (intro rnd_near_top) simp_all
  have MT: "M < overflow_threshold" by (simp add: M_def)
  have rw: "rnd w = w" using assms(1) by (simp add: is_double_iff)
  have "rnd (w - c) \<le> rnd w" using assms(2) by (intro rnd_mono) simp
  then have up: "rnd (w - c) \<le> M" using rw wM by linarith
  have "rnd (- (M + c)) \<le> rnd (w - c)" using wM by (intro rnd_mono) linarith
  moreover have "rnd (- (M + c)) = - M" by (simp only: rnd_minus top)
  ultimately have lo: "- M \<le> rnd (w - c)" by linarith
  show ?thesis using up lo MT by linarith
qed




subsection \<open>Order of Numbers\<close>

lemma js_le_refl_iff [simp]: "js_le a a \<longleftrightarrow> a \<noteq> NaN"
  by (cases a) simp_all

lemma js_le_PInf [simp]: "js_le a PInf \<longleftrightarrow> a \<noteq> NaN"
  by (cases a) simp_all

lemma js_le_NInf [simp]: "js_le NInf a \<longleftrightarrow> a \<noteq> NaN"
  by (cases a) simp_all

lemma js_mul_NaN_right [simp]: "js_mul a NaN = NaN"
  by (cases a) simp_all





section \<open>Properties of the application controller\<close>

subsection \<open>Statistics\<close>

lemma length_filter_three:
  "length (filter (\<lambda>e. f e = a) xs) + length (filter (\<lambda>e. f e = b) xs)
     + length (filter (\<lambda>e. f e = c) xs) \<le> length xs"
  if "a \<noteq> b" "a \<noteq> c" "b \<noteq> c"
  using that by (induction xs) auto

lemma length_filter_three_eq:
  "length (filter (\<lambda>e. f e = a) xs) + length (filter (\<lambda>e. f e = b) xs)
     + length (filter (\<lambda>e. f e = c) xs) = length xs
   \<longleftrightarrow> list_all (\<lambda>e. f e = a \<or> f e = b \<or> f e = c) xs"
  if "a \<noteq> b" "a \<noteq> c" "b \<noteq> c"
proof (induction xs)
  case Nil
  then show ?case by simp
next
  case (Cons x xs)
  have le: "length (filter (\<lambda>e. f e = a) xs) + length (filter (\<lambda>e. f e = b) xs)
     + length (filter (\<lambda>e. f e = c) xs) \<le> length xs"
    using that by (rule length_filter_three)
  show ?case using Cons that le by auto
qed

lemma updateStatisticsDisplay_readout:
  "updateStatisticsDisplay fmt s doc ''total-exoplanets''
     = (if doc ''total-exoplanets'' = None then None else Some (fmt (total_count s)))"
  "updateStatisticsDisplay fmt s doc ''confirmed-exoplanets''
     = (if doc ''confirmed-exoplanets'' = None then None else Some (fmt (confirmed s)))"
  "updateStatisticsDisplay fmt s doc ''candidate-exoplanets''
     = (if doc ''candidate-exoplanets'' = None then None else Some (fmt (candidates s)))"
  "updateStatisticsDisplay fmt s doc ''false-positive-exoplanets''
     = (if doc ''false-positive-exoplanets'' = None then None else Some (fmt (falsePositives s)))"
  by (simp_all add: updateStatisticsDisplay_def setTextContent_def getElementById_def
      split: option.split)

text \<open>
  C10.  For a fetched list of records the total is the length of the list, each of the
  three counts is the number of records with exactly that label, and the three counts add
  up to the total exactly when every record carries one of the three labels.  The readout
  shows these four numbers (through the host's number formatting) in the elements that
  exist.
\<close>

theorem statistics_counts:
  "total_count (statistics xs) = length xs
   \<and> confirmed (statistics xs) = length (filter (\<lambda>e. classification e = Str ''Confirmed Exoplanet'') xs)
   \<and> candidates (statistics xs) = length (filter (\<lambda>e. classification e = Str ''Candidate'') xs)
   \<and> falsePositives (statistics xs) = length (filter (\<lambda>e. classification e = Str ''False Positive'') xs)
   \<and> (confirmed (statistics xs) + candidates (statistics xs) + falsePositives (statistics xs)
        = total_count (statistics xs)
      \<longleftrightarrow> list_all (\<lambda>e. classification e = Str ''Confirmed Exoplanet''
                          \<or> classification e = Str ''Candidate''
                          \<or> classification e = Str ''False Positive'') xs)
   \<and> loadExoplanetStatistics fmt (Response ok (Parsed (Records xs))) doc ''total-exoplanets''
        = (if doc ''total-exoplanets'' = None then None else Some (fmt (length xs)))
   \<and> loadExoplanetStatistics fmt (Response ok (Parsed (Records xs))) doc ''confirmed-exoplanets''
        = (if doc ''confirmed-exoplanets'' = None then None
           else Some (fmt (length (filter (\<lambda>e. classification e = Str ''Confirmed Exoplanet'') xs))))
   \<and> loadExoplanetStatistics fmt (Response ok (Parsed (Records xs))) doc ''candidate-exoplanets''
        = (if doc ''candidate-exoplanets'' = None then None
           else Some (fmt (length (filter (\<lambda>e. classification e = Str ''Candidate'') xs))))
   \<and> loadExoplanetStatistics fmt (Response ok (Parsed (Records xs))) doc ''false-positive-exoplanets''
        = (if doc ''false-positive-exoplanets'' = None then None
           else Some (fmt (length (filter (\<lambda>e. classification e = Str ''False Positive'') xs))))"
proof -
  have "length (filter (\<lambda>e. classification e = Str ''Confirmed Exoplanet'') xs)
        + length (filter (\<lambda>e. classification e = Str ''Candidate'') xs)
        + length (filter (\<lambda>e. classification e = Str ''False Positive'') xs) = length xs
      \<longleftrightarrow> list_all (\<lambda>e. classification e = Str ''Confirmed Exoplanet''
                          \<or> classification e = Str ''Candidate''
                          \<or> classification e = Str ''False Positive'') xs"
    by (rule length_filter_three_eq) simp_all
  moreover have "loadExoplanetStatistics fmt (Response ok (Parsed (Records xs))) doc
      = updateStatisticsDisplay fmt (statistics xs) doc"
    by (simp add: loadExoplanetStatistics_def)
  ultimately show ?thesis
    by (simp add: updateStatisticsDisplay_readout) (simp add: statistics_def)
qed

subsection \<open>Theme\<close>







lemma sublist_mid: "sublist xs (ps @ xs @ ss)"
  by (auto simp: sublist_def)

lemma int_to_string_92: "int_to_string 92 = ''92''"
  by (simp add: int_to_string_def)

text \<open>
  C8.  Submitting the classify form with an ok reply whose prediction is
  \<^verbatim>\<open>Confirmed Exoplanet\<close> and whose confidence is 92 (and whose probabilities are present)
  writes into \<^verbatim>\<open>classify-result\<close> a panel whose HTML contains \<^verbatim>\<open>92%\<close> and
  \<^verbatim>\<open>Confirmed Exoplanet\<close>.
\<close>

theorem classify_success_panel:
  assumes "doc ''classify-result'' \<noteq> None"
    and "prediction p = ''Confirmed Exoplanet''" and "confidence p = 92"
    and "probabilities p = Some ps"
  shows "\<exists>doc'. handleClassification
             (Response True (Parsed (JsonObject \<lparr>error = e, payload = p\<rparr>))) doc = Inr doc'
           \<and> doc' ''classify-result'' = Some (classification_html p ps)
           \<and> sublist ''92%'' (classification_html p ps)
           \<and> sublist ''Confirmed Exoplanet'' (classification_html p ps)"
proof -
  have a: "sublist ''Confirmed Exoplanet'' (classification_html p ps)"
    by (simp add: classification_html_def assms(2) sublist_Cons_right)
  have b: "sublist ''92%'' (classification_html p ps)"
    by (simp add: classification_html_def assms(2,3) int_to_string_92 sublist_Cons_right)
  have c: "\<exists>doc'. displayClassificationResult (JsonObject \<lparr>error = e, payload = p\<rparr>)
              ''classify-result'' (doc(''classify-result'' \<mapsto> loading_html ''Analizando datos...'')) = Inr doc'
            \<and> doc' ''classify-result'' = Some (classification_html p ps)"
    by (auto simp: displayClassificationResult_def getElementById_def assms(4) Let_def
        split: option.splits)
  then obtain doc' where d: "displayClassificationResult (JsonObject \<lparr>error = e, payload = p\<rparr>)
              ''classify-result'' (doc(''classify-result'' \<mapsto> loading_html ''Analizando datos...'')) = Inr doc'"
    "doc' ''classify-result'' = Some (classification_html p ps)" by blast
  have "handleClassification (Response True (Parsed (JsonObject \<lparr>error = e, payload = p\<rparr>))) doc = Inr doc'"
    using assms(1) d(1)
    by (auto simp: handleClassification_def handle_submit_def showLoading_def getElementById_def
        submit_try_def)
  then show ?thesis using a b d(2) by blast
qed

theorem classify_success_panel_witness:
  "\<exists>doc'. handleClassification
       (Response True (Parsed (JsonObject \<lparr>error = None, payload =
          \<lparr>prediction = ''Confirmed Exoplanet'', confidence = 92,
            probabilities = Some [(''Confirmed Exoplanet'', 92), (''Candidate'', 6), (''False Positive'', 2)],
            model_report = None\<rparr>\<rparr>)))
       [''classify-result'' \<mapsto> []] = Inr doc'
     \<and> doc' ''classify-result'' = Some (classification_html
          \<lparr>prediction = ''Confirmed Exoplanet'', confidence = 92,
            probabilities = Some [(''Confirmed Exoplanet'', 92), (''Candidate'', 6), (''False Positive'', 2)],
            model_report = None\<rparr>
          [(''Confirmed Exoplanet'', 92), (''Candidate'', 6), (''False Positive'', 2)])
     \<and> sublist ''92%'' (classification_html
          \<lparr>prediction = ''Confirmed Exoplanet'', confidence = 92,
            probabilities = Some [(''Confirmed Exoplanet'', 92), (''Candidate'', 6), (''False Positive'', 2)],
            model_report = None\<rparr>
          [(''Confirmed Exoplanet'', 92), (''Candidate'', 6), (''False Positive'', 2)])
     \<and> sublist ''Confirmed Exoplanet'' (classification_html
          \<lparr>prediction = ''Confirmed Exoplanet'', confidence = 92,
            probabilities = Some [(''Confirmed Exoplanet'', 92), (''Candidate'', 6), (''False Positive'', 2)],
            model_report = None\<rparr>
          [(''Confirmed Exoplanet'', 92), (''Candidate'', 6), (''False Positive'', 2)])"
  by (rule classify_success_panel) simp_all

section \<open>Properties of the star map\<close>

subsection \<open>Marker size and colour\<close>

text \<open>
  C1.  A record whose classification is none of the three labels is not guarded against:
  at the record below the colour lookup gives \<^verbatim>\<open>undefined\<close> and the size is NaN, and
  \<^verbatim>\<open>render\<close> puts them on the circle (no fill, radius NaN).
\<close>

theorem unknown_classification_unstyled:
  "fill_color \<lparr> exo_id = ''KOI-7'', name = ''KOI-7'', ra = Fin 10, dec = Fin 20,
       classification = Str ''Unknown'', period = Fin 3, radius = Fin 1,
       temperature = Fin 300, depth = Fin 100, snr = Fin 10, magnitude = Fin 9 \<rparr> = Undefined
   \<and> calculateSize \<lparr> exo_id = ''KOI-7'', name = ''KOI-7'', ra = Fin 10, dec = Fin 20,
       classification = Str ''Unknown'', period = Fin 3, radius = Fin 1,
       temperature = Fin 300, depth = Fin 100, snr = Fin 10, magnitude = Fin 9 \<rparr> = NaN
   \<and> attr_fill (render_marker (StarMap ''starmap-container'' (Fin 800) (Fin 600))
       \<lparr> exo_id = ''KOI-7'', name = ''KOI-7'', ra = Fin 10, dec = Fin 20,
       classification = Str ''Unknown'', period = Fin 3, radius = Fin 1,
       temperature = Fin 300, depth = Fin 100, snr = Fin 10, magnitude = Fin 9 \<rparr>) = Undefined
   \<and> attr_r (render_marker (StarMap ''starmap-container'' (Fin 800) (Fin 600))
       \<lparr> exo_id = ''KOI-7'', name = ''KOI-7'', ra = Fin 10, dec = Fin 20,
       classification = Str ''Unknown'', period = Fin 3, radius = Fin 1,
       temperature = Fin 300, depth = Fin 100, snr = Fin 10, magnitude = Fin 9 \<rparr>) = NaN"
  by (simp add: render_marker_def fill_color_def calculateSize_def colorScheme_def
      classificationMultiplier_def property_key_def)

text \<open>
  C2.  For a record with one of the three labels the radius that \<^verbatim>\<open>render\<close> gives the
  marker is \<^verbatim>\<open>Math.log(radius + 1) * 2 * m\<close> in the arithmetic of Numbers, with \<open>m\<close> the
  Number 1.5 for a confirmed exoplanet, 1.2 for a candidate and 0.8 for a false positive.
\<close>

theorem calculateSize_formula:
  "attr_r (render_marker sm e) = calculateSize e
   \<and> (classification e = Str ''Confirmed Exoplanet'' \<longrightarrow>
      calculateSize e = js_mul (js_mul (Math_log (js_add (radius e) (Fin 1))) (Fin 2)) (Fin 1.5))
   \<and> (classification e = Str ''Candidate'' \<longrightarrow>
      calculateSize e = js_mul (js_mul (Math_log (js_add (radius e) (Fin 1))) (Fin 2)) (num 1.2))
   \<and> (classification e = Str ''False Positive'' \<longrightarrow>
      calculateSize e = js_mul (js_mul (Math_log (js_add (radius e) (Fin 1))) (Fin 2)) (num 0.8))"
  by (simp add: render_marker_def calculateSize_def baseSize_def classificationMultiplier_def
      property_key_def)

theorem calculateSize_formula_witness:
  "attr_r (render_marker (StarMap ''starmap-container'' (Fin 800) (Fin 600))
       ((sample_record (\<lambda>k. 0) 0)\<lparr>classification := Str ''Confirmed Exoplanet'', radius := Fin 2\<rparr>))
     = js_mul (js_mul (Math_log (js_add (Fin 2) (Fin 1))) (Fin 2)) (Fin 1.5)
   \<and> calculateSize ((sample_record (\<lambda>k. 0) 0)\<lparr>classification := Str ''Candidate'', radius := Fin 2\<rparr>)
     = js_mul (js_mul (Math_log (js_add (Fin 2) (Fin 1))) (Fin 2)) (num 1.2)
   \<and> calculateSize ((sample_record (\<lambda>k. 0) 0)\<lparr>classification := Str ''False Positive'', radius := Fin 2\<rparr>)
     = js_mul (js_mul (Math_log (js_add (Fin 2) (Fin 1))) (Fin 2)) (num 0.8)"
  using calculateSize_formula [where e = "(sample_record (\<lambda>k. 0) 0)\<lparr>classification := Str ''Confirmed Exoplanet'', radius := Fin 2\<rparr>"
      and sm = "(StarMap ''starmap-container'' (Fin 800) (Fin 600))"]
    calculateSize_formula [where e = "(sample_record (\<lambda>k. 0) 0)\<lparr>classification := Str ''Candidate'', radius := Fin 2\<rparr>"]
    calculateSize_formula [where e = "(sample_record (\<lambda>k. 0) 0)\<lparr>classification := Str ''False Positive'', radius := Fin 2\<rparr>"]
  by simp



















subsection \<open>Filtering\<close>








subsection \<open>Sample data\<close>









declare sample_loop.simps [simp del]





subsection \<open>Scales\<close>

lemma js_sub_small:
  assumes "is_double w" "0 \<le> c" "c \<le> 32"
  shows "js_sub (Fin w) (Fin c) = Fin (rnd (w - c)) \<and> is_double (rnd (w - c))"
  using sub_small_finite [OF assms] by (simp add: fl_Fin_iff is_double_iff)

lemma interpolateNumber_0:
  "is_double a \<Longrightarrow> interpolateNumber (Fin a) (Fin b) (Fin 0) = Fin a"
  by (simp add: interpolateNumber_def)

lemma interpolateNumber_1:
  "is_double b \<Longrightarrow> interpolateNumber (Fin a) (Fin b) (Fin 1) = Fin b"
  by (simp add: interpolateNumber_def)

lemma doubles_used [simp]:
  "is_double 20" "is_double 30" "is_double 40" "is_double 90" "is_double 180" "is_double 360"
  using is_double_of_int [of 20] is_double_of_int [of 30] is_double_of_int [of 40]
    is_double_of_int [of 90] is_double_of_int [of 180] is_double_of_int [of 360]
  by simp_all

lemma normalize_x:
  "normalize (Fin 0) (Fin 360) a = js_div (js_sub a (Fin 0)) (Fin 360)"
  by (simp add: normalize_def truthy_def isNaN_def)

lemma normalize_y:
  "normalize (Fin (- 90)) (Fin 90) a = js_div (js_sub a (Fin (- 90))) (Fin 180)"
  by (simp add: normalize_def truthy_def isNaN_def)

text \<open>
  C6.  For a map whose width and height are finite Numbers, the two scales that place a
  marker are independent linear interpolations (the horizontal one reads the width only,
  the vertical one the height only): right ascension 0 goes to the left margin and 360 to
  the width minus the right margin; declination -90 goes to the height minus the bottom
  margin and +90 to the top margin.
\<close>

theorem scale_endpoints:
  assumes "width sm = Fin w" "is_double w" "height sm = Fin h" "is_double h"
  shows "attr_cx (render_marker sm d) = xScale sm (ra d)
       \<and> attr_cy (render_marker sm d) = yScale sm (dec d)
       \<and> xScale sm (Fin 0) = Some margin_left
       \<and> xScale sm (Fin 360) = Some (js_sub (width sm) margin_right)
       \<and> yScale sm (Fin (- 90)) = Some (js_sub (height sm) margin_bottom)
       \<and> yScale sm (Fin 90) = Some margin_top
       \<and> (\<forall>a. a \<noteq> NaN \<longrightarrow>
             xScale sm a = Some (interpolateNumber margin_left (js_sub (width sm) margin_right)
                                   (js_div (js_sub a (Fin 0)) (Fin 360)))
           \<and> yScale sm a = Some (interpolateNumber (js_sub (height sm) margin_bottom) margin_top
                                   (js_div (js_sub a (Fin (- 90))) (Fin 180))))"
proof -
  have x: "js_sub (Fin w) (Fin 20) = Fin (rnd (w - 20))" "is_double (rnd (w - 20))"
    using js_sub_small [OF assms(2), of 20] by simp_all
  have y: "js_sub (Fin h) (Fin 30) = Fin (rnd (h - 30))" "is_double (rnd (h - 30))"
    using js_sub_small [OF assms(4), of 30] by simp_all
  have gen: "xScale sm a = Some (interpolateNumber margin_left (js_sub (width sm) margin_right)
                                   (js_div (js_sub a (Fin 0)) (Fin 360)))
           \<and> yScale sm a = Some (interpolateNumber (js_sub (height sm) margin_bottom) margin_top
                                   (js_div (js_sub a (Fin (- 90))) (Fin 180)))"
    if "a \<noteq> NaN" for a
    using that by (simp add: xScale_def yScale_def scaleLinear_def isNaN_def normalize_x normalize_y Let_def)
  have t0: "js_div (js_sub (Fin 0) (Fin 0)) (Fin 360) = Fin 0" by simp
  have t1: "js_div (js_sub (Fin 360) (Fin 0)) (Fin 360) = Fin 1" by simp
  have s0: "js_div (js_sub (Fin (- 90)) (Fin (- 90))) (Fin 180) = Fin 0" by simp
  have s1: "js_div (js_sub (Fin 90) (Fin (- 90))) (Fin 180) = Fin 1" by simp
  have "xScale sm (Fin 0) = Some margin_left"
    using gen [of "Fin 0"] unfolding t0 assms(1) margin_left_def margin_right_def x(1)
    by (simp add: interpolateNumber_0)
  moreover have "xScale sm (Fin 360) = Some (js_sub (width sm) margin_right)"
    using gen [of "Fin 360"] x(2) unfolding t1 assms(1) margin_left_def margin_right_def x(1)
    by (simp add: interpolateNumber_1)
  moreover have "yScale sm (Fin (- 90)) = Some (js_sub (height sm) margin_bottom)"
    using gen [of "Fin (- 90)"] y(2) unfolding s0 assms(3) margin_top_def margin_bottom_def y(1)
    by (simp add: interpolateNumber_0)
  moreover have "yScale sm (Fin 90) = Some margin_top"
    using gen [of "Fin 90"] unfolding s1 assms(3) margin_top_def margin_bottom_def y(1)
    by (simp add: interpolateNumber_1)
  ultimately show ?thesis using gen by (simp add: render_marker_def)
qed

theorem scale_endpoints_witness:
  "xScale (StarMap ''starmap-container'' (Fin 800) (Fin 600)) (Fin 0) = Some (Fin 40)
   \<and> xScale (StarMap ''starmap-container'' (Fin 800) (Fin 600)) (Fin 360) = Some (Fin 780)
   \<and> yScale (StarMap ''starmap-container'' (Fin 800) (Fin 600)) (Fin (- 90)) = Some (Fin 570)
   \<and> yScale (StarMap ''starmap-container'' (Fin 800) (Fin 600)) (Fin 90) = Some (Fin 20)"
proof -
  have d: "is_double 800" "is_double 600" "is_double 780" "is_double 570"
    using is_double_of_int [of 800] is_double_of_int [of 600]
      is_double_of_int [of 780] is_double_of_int [of 570] by simp_all
  have w: "width (StarMap ''starmap-container'' (Fin 800) (Fin 600)) = Fin 800"
    and h: "height (StarMap ''starmap-container'' (Fin 800) (Fin 600)) = Fin 600"
    by (simp_all add: StarMap_def)
  show ?thesis
    using scale_endpoints [OF w d(1) h d(2), of "sample_record (\<lambda>k. 0) 0"] d(3,4)
    by (simp add: w h margin_left_def margin_right_def margin_top_def margin_bottom_def)
qed

end
